theory Spec2Isabelle
  imports Complex_Main "HOL-Library.Sublist"
begin

section \<open>The CSV import processor \<^verbatim>\<open>process_csv.py\<close>\<close>

text \<open>
  A shallow embedding of \<^verbatim>\<open>src/server/src/python/process_csv.py\<close>: the categoriser,
  the date normaliser, the merchant extractor, the row pipeline and the command-line
  entry point. Every function of the script is a HOL function of the same name; what
  the script takes from the Python runtime and from pandas (\<^verbatim>\<open>str\<close> methods, \<^verbatim>\<open>re.sub\<close>,
  \<^verbatim>\<open>datetime.strptime\<close>, \<^verbatim>\<open>float\<close>, \<^verbatim>\<open>pd.read_csv\<close>) is modelled in the subsections
  that precede its first use.
\<close>

subsection \<open>Python strings\<close>

text \<open>
  A \<^verbatim>\<open>str\<close> is a \<^typ>\<open>string\<close>. The model covers ASCII text: case mapping, digits and
  whitespace are those of the ASCII code points, and every other character is an
  ordinary character that is neither a letter, a digit nor whitespace.
\<close>

definition ascii_uppercase :: string where
  "ascii_uppercase = ''ABCDEFGHIJKLMNOPQRSTUVWXYZ''"

definition ascii_lowercase :: string where
  "ascii_lowercase = ''abcdefghijklmnopqrstuvwxyz''"

definition digits :: string where
  "digits = ''0123456789''"

text \<open>
  The ASCII characters for which \<^verbatim>\<open>str.isspace\<close> holds: tab, line feed, vertical tab,
  form feed, carriage return, the four separators \<^verbatim>\<open>0x1c\<close> to \<^verbatim>\<open>0x1f\<close>, and space.
  \<^verbatim>\<open>str.split()\<close>, \<^verbatim>\<open>str.strip()\<close> and the regular expression class \<^verbatim>\<open>\s\<close> all use this set.
\<close>

definition whitespace :: string where
  "whitespace = [CHR 0x09, CHR 0x0A, CHR 0x0B, CHR 0x0C, CHR 0x0D,
                 CHR 0x1C, CHR 0x1D, CHR 0x1E, CHR 0x1F, CHR '' '']"

definition is_digit :: "char \<Rightarrow> bool" where
  "is_digit c = (c \<in> set digits)"

definition is_space :: "char \<Rightarrow> bool" where
  "is_space c = (c \<in> set whitespace)"

definition lower_char :: "char \<Rightarrow> char" where
  "lower_char c = (case map_of (zip ascii_uppercase ascii_lowercase) c of
                     Some l \<Rightarrow> l | None \<Rightarrow> c)"

definition upper_char :: "char \<Rightarrow> char" where
  "upper_char c = (case map_of (zip ascii_lowercase ascii_uppercase) c of
                     Some u \<Rightarrow> u | None \<Rightarrow> c)"

text \<open>\<^verbatim>\<open>s.lower()\<close>\<close>

definition lower :: "string \<Rightarrow> string" where
  "lower s = map lower_char s"

text \<open>\<^verbatim>\<open>s.capitalize()\<close>: the first character in upper case, the others in lower case.\<close>

fun capitalize :: "string \<Rightarrow> string" where
  "capitalize [] = []"
| "capitalize (c # cs) = upper_char c # lower cs"

text \<open>\<^verbatim>\<open>k in s\<close> for two strings: \<open>k\<close> occurs in \<open>s\<close> as a contiguous substring.\<close>

fun str_in :: "string \<Rightarrow> string \<Rightarrow> bool" where
  "str_in k [] = (k = [])"
| "str_in k (c # cs) = (prefix k (c # cs) \<or> str_in k cs)"

text \<open>\<^verbatim>\<open>s.replace(old, '')\<close> for a one-character \<open>old\<close>.\<close>

definition remove_char :: "char \<Rightarrow> string \<Rightarrow> string" where
  "remove_char old s = filter (\<lambda>c. c \<noteq> old) s"

text \<open>\<^verbatim>\<open>s.replace(old, new)\<close> for one-character \<open>old\<close> and \<open>new\<close>.\<close>

definition replace_char :: "char \<Rightarrow> char \<Rightarrow> string \<Rightarrow> string" where
  "replace_char old new s = map (\<lambda>c. if c = old then new else c) s"

text \<open>\<^verbatim>\<open>s.strip()\<close>\<close>

definition strip :: "string \<Rightarrow> string" where
  "strip s = rev (dropWhile is_space (rev (dropWhile is_space s)))"

text \<open>
  \<^verbatim>\<open>s.split()\<close>: the maximal runs of non-whitespace characters, in order. The first
  argument of the loop is the word being read.
\<close>

fun split_loop :: "string \<Rightarrow> string \<Rightarrow> string list" where
  "split_loop w [] = (if w = [] then [] else [w])"
| "split_loop w (c # cs) =
     (if is_space c then (if w = [] then split_loop [] cs else w # split_loop [] cs)
      else split_loop (w @ [c]) cs)"

definition split :: "string \<Rightarrow> string list" where
  "split s = split_loop [] s"

text \<open>\<^verbatim>\<open>sep.join(words)\<close>\<close>

fun join :: "string \<Rightarrow> string list \<Rightarrow> string" where
  "join sep [] = []"
| "join sep [w] = w"
| "join sep (w # ws) = w @ sep @ join sep ws"

subsection \<open>Python floats\<close>

text \<open>
  The script negates an amount, takes its absolute value and compares it with zero;
  all three are exact on IEEE doubles, so a float is modelled by its value: a finite
  number, one of the two infinities, or not-a-number. Negative zero is identified with
  zero: no output of the script tells them apart, since the sign of a zero survives
  neither \<^verbatim>\<open>abs\<close> nor a comparison. Every comparison with not-a-number is false.
\<close>

datatype pyfloat = Fin real | PInf | NInf | NaN

text \<open>\<^verbatim>\<open>x > 0\<close>\<close>

fun fgt0 :: "pyfloat \<Rightarrow> bool" where
  "fgt0 (Fin r) = (r > 0)"
| "fgt0 PInf = True"
| "fgt0 NInf = False"
| "fgt0 NaN = False"

text \<open>\<^verbatim>\<open>x < 0\<close>\<close>

fun flt0 :: "pyfloat \<Rightarrow> bool" where
  "flt0 (Fin r) = (r < 0)"
| "flt0 PInf = False"
| "flt0 NInf = True"
| "flt0 NaN = False"

text \<open>\<^verbatim>\<open>x >= 0\<close>\<close>

fun fge0 :: "pyfloat \<Rightarrow> bool" where
  "fge0 (Fin r) = (r \<ge> 0)"
| "fge0 PInf = True"
| "fge0 NInf = False"
| "fge0 NaN = False"

text \<open>\<^verbatim>\<open>-x\<close>\<close>

fun fneg :: "pyfloat \<Rightarrow> pyfloat" where
  "fneg (Fin r) = Fin (- r)"
| "fneg PInf = NInf"
| "fneg NInf = PInf"
| "fneg NaN = NaN"

text \<open>\<^verbatim>\<open>abs(x)\<close>\<close>

fun fabs :: "pyfloat \<Rightarrow> pyfloat" where
  "fabs (Fin r) = Fin \<bar>r\<bar>"
| "fabs PInf = PInf"
| "fabs NInf = PInf"
| "fabs NaN = NaN"

subsection \<open>\<^verbatim>\<open>categorize_transaction\<close>\<close>

text \<open>The dictionary \<^verbatim>\<open>categories\<close>, in its insertion order, which is the order of iteration.\<close>

definition categories :: "(string \<times> string list) list" where
  "categories =
    [(''groceries'', [''grocery'', ''market'', ''food'', ''supermarket'', ''trader'', ''whole foods'']),
     (''dining'', [''restaurant'', ''cafe'', ''coffee'', ''starbucks'', ''mcdonalds'', ''takeout'']),
     (''transportation'', [''uber'', ''lyft'', ''taxi'', ''transport'', ''transit'', ''train'', ''metro'']),
     (''utilities'', [''electric'', ''water'', ''gas'', ''internet'', ''phone'', ''bill'']),
     (''entertainment'', [''netflix'', ''spotify'', ''movie'', ''theater'', ''hulu'', ''disney'']),
     (''shopping'', [''amazon'', ''store'', ''shop'', ''target'', ''walmart'', ''purchase'']),
     (''housing'', [''rent'', ''mortgage'', ''home'', ''hoa'', ''property'']),
     (''income'', [])]"

text \<open>The inner loop \<^verbatim>\<open>for keyword in keywords\<close>: does some keyword occur in the description?\<close>

fun keyword_loop :: "string list \<Rightarrow> string \<Rightarrow> bool" where
  "keyword_loop [] description = False"
| "keyword_loop (keyword # keywords) description =
     (if str_in keyword description then True else keyword_loop keywords description)"

text \<open>The outer loop \<^verbatim>\<open>for category, keywords in categories.items()\<close> and the default.\<close>

fun category_loop :: "(string \<times> string list) list \<Rightarrow> string \<Rightarrow> string" where
  "category_loop [] description = ''uncategorized''"
| "category_loop ((category, keywords) # rest) description =
     (if keyword_loop keywords description then category
      else category_loop rest description)"

definition categorize_transaction :: "string \<Rightarrow> pyfloat \<Rightarrow> string" where
  "categorize_transaction description amount =
     (let description = lower description in
      if fgt0 amount then ''income''
      else category_loop categories description)"

subsection \<open>Dates: \<^verbatim>\<open>datetime.strptime\<close> and \<^verbatim>\<open>strftime\<close>\<close>

text \<open>
  \<^verbatim>\<open>strptime\<close> turns a format into a regular expression, one capturing group for each
  directive, matches it at the start of the text, requires that the match ends where
  the text ends, converts the groups to numbers and builds a date, which fails for a
  day that the month does not have and for the year 0. Each of these failures is a
  \<^verbatim>\<open>ValueError\<close>, modelled as \<open>None\<close>. Only the four directives of the script's formats
  are modelled; any other directive counts as a bad one.
\<close>

record date =
  year :: nat
  month :: nat
  day :: nat

datatype directive = Dm | Dd | DY | Dy | Lit char

definition directive_of :: "char \<Rightarrow> directive option" where
  "directive_of c =
     (if c = CHR ''m'' then Some Dm else if c = CHR ''d'' then Some Dd
      else if c = CHR ''Y'' then Some DY else if c = CHR ''y'' then Some Dy
      else None)"

fun compile_format :: "string \<Rightarrow> directive list option" where
  "compile_format [] = Some []"
| "compile_format [c] = (if c = CHR ''%'' then None else Some [Lit c])"
| "compile_format (c # d # rest) =
     (if c = CHR ''%'' then
        (case directive_of d of
           None \<Rightarrow> None
         | Some dir \<Rightarrow> map_option ((#) dir) (compile_format rest))
      else map_option ((#) (Lit c)) (compile_format (d # rest)))"

text \<open>
  The regular expression of a directive is a list of alternatives, tried in order; an
  alternative is a list of character classes, each class the string of its members:
  \<^verbatim>\<open>%m\<close> is \<^verbatim>\<open>1[0-2]|0[1-9]|[1-9]\<close>, \<^verbatim>\<open>%d\<close> is \<^verbatim>\<open>3[0-1]|[1-2]\d|0[1-9]|[1-9]| [1-9]\<close>,
  \<^verbatim>\<open>%Y\<close> is \<^verbatim>\<open>\d\d\d\d\<close> and \<^verbatim>\<open>%y\<close> is \<^verbatim>\<open>\d\d\<close>.
\<close>

definition nonzero_digits :: string where
  "nonzero_digits = ''123456789''"

fun directive_regex :: "directive \<Rightarrow> string list list" where
  "directive_regex Dm = [[''1'', ''012''], [''0'', nonzero_digits], [nonzero_digits]]"
| "directive_regex Dd = [[''3'', ''01''], [''12'', digits], [''0'', nonzero_digits],
                         [nonzero_digits], ['' '', nonzero_digits]]"
| "directive_regex DY = [[digits, digits, digits, digits]]"
| "directive_regex Dy = [[digits, digits]]"
| "directive_regex (Lit c) = [[[c]]]"

text \<open>One alternative against the start of a text: the characters matched and the rest.\<close>

fun match_classes :: "string list \<Rightarrow> string \<Rightarrow> (string \<times> string) option" where
  "match_classes [] s = Some ([], s)"
| "match_classes (cl # cls) [] = None"
| "match_classes (cl # cls) (c # cs) =
     (if c \<in> set cl then
        (case match_classes cls cs of
           None \<Rightarrow> None
         | Some (m, rest) \<Rightarrow> Some (c # m, rest))
      else None)"

text \<open>
  A sequence of groups against the start of a text, with backtracking: an alternative
  is kept only if the groups after it match what it leaves. The result is the text of
  every group and the unmatched rest.
\<close>

fun re_match :: "string list list list \<Rightarrow> string \<Rightarrow> (string list \<times> string) option" where
  "re_match [] s = Some ([], s)"
| "re_match ([] # groups) s = None"
| "re_match ((alt # alts) # groups) s =
     (case match_classes alt s of
        None \<Rightarrow> re_match (alts # groups) s
      | Some (m, rest) \<Rightarrow>
          (case re_match groups rest of
             None \<Rightarrow> re_match (alts # groups) s
           | Some (ms, rest') \<Rightarrow> Some (m # ms, rest')))"

definition digit_val :: "char \<Rightarrow> nat" where
  "digit_val c = (case map_of (zip digits [0, 1, 2, 3, 4, 5, 6, 7, 8, 9]) c of
                    Some v \<Rightarrow> v | None \<Rightarrow> 0)"

text \<open>
  \<^verbatim>\<open>int(s)\<close> on the text of a group: digits, after a space for a one-digit day, which
  \<^verbatim>\<open>int\<close> skips.
\<close>

definition int_of_group :: "string \<Rightarrow> nat" where
  "int_of_group s = foldl (\<lambda>n c. 10 * n + digit_val c) 0 (strip s)"

fun set_field :: "date \<Rightarrow> directive \<times> string \<Rightarrow> date" where
  "set_field dt (DY, s) = dt\<lparr>year := int_of_group s\<rparr>"
| "set_field dt (Dy, s) =
     dt\<lparr>year := (if int_of_group s \<le> 68 then 2000 + int_of_group s
                 else 1900 + int_of_group s)\<rparr>"
| "set_field dt (Dm, s) = dt\<lparr>month := int_of_group s\<rparr>"
| "set_field dt (Dd, s) = dt\<lparr>day := int_of_group s\<rparr>"
| "set_field dt (Lit c, s) = dt"

definition is_leap :: "nat \<Rightarrow> bool" where
  "is_leap y = (y mod 4 = 0 \<and> (y mod 100 \<noteq> 0 \<or> y mod 400 = 0))"

definition days_in_month :: "nat \<Rightarrow> nat \<Rightarrow> nat" where
  "days_in_month y m =
     (if m = 2 then (if is_leap y then 29 else 28)
      else if m = 4 \<or> m = 6 \<or> m = 9 \<or> m = 11 then 30 else 31)"

definition valid_date :: "date \<Rightarrow> bool" where
  "valid_date dt =
     (1 \<le> year dt \<and> year dt \<le> 9999 \<and> 1 \<le> month dt \<and> month dt \<le> 12 \<and>
      1 \<le> day dt \<and> day dt \<le> days_in_month (year dt) (month dt))"

definition strptime :: "string \<Rightarrow> string \<Rightarrow> date option" where
  "strptime date_string format =
     (case compile_format format of
        None \<Rightarrow> None
      | Some ds \<Rightarrow>
          (case re_match (map directive_regex ds) date_string of
             None \<Rightarrow> None
           | Some (groups, rest) \<Rightarrow>
               if rest \<noteq> [] then None
               else
                 let dt = foldl set_field \<lparr>year = 1900, month = 1, day = 1\<rparr> (zip ds groups)
                 in if valid_date dt then Some dt else None))"

text \<open>The decimal digits of a number, and the number padded with zeros to a width.\<close>

fun str_nat :: "nat \<Rightarrow> string" where
  "str_nat n = (if n < 10 then [digits ! n] else str_nat (n div 10) @ [digits ! (n mod 10)])"

declare str_nat.simps [simp del]

definition zero_pad :: "nat \<Rightarrow> nat \<Rightarrow> string" where
  "zero_pad width n = replicate (width - length (str_nat n)) (CHR ''0'') @ str_nat n"

text \<open>
  \<^verbatim>\<open>dt.strftime('%Y-%m-%d')\<close>. The C library formats the year: some pad a year below
  1000 with zeros to four digits and some print it as it is, so the model takes the
  platform's choice as its first argument. Month and day always have two digits.
\<close>

definition strftime :: "bool \<Rightarrow> date \<Rightarrow> string" where
  "strftime pads_year dt =
     (if pads_year then zero_pad 4 (year dt) else str_nat (year dt))
     @ ''-'' @ zero_pad 2 (month dt) @ ''-'' @ zero_pad 2 (day dt)"

subsection \<open>\<^verbatim>\<open>normalize_date\<close>\<close>

definition date_formats :: "string list" where
  "date_formats = [''%m/%d/%Y'', ''%Y-%m-%d'', ''%d/%m/%Y'', ''%m-%d-%Y'',
                   ''%d-%m-%Y'', ''%m/%d/%y'', ''%d/%m/%y'', ''%Y/%m/%d'']"

text \<open>
  The loop \<^verbatim>\<open>for fmt in date_formats\<close>: the first format that parses decides; after the
  last one the text is returned as it came.
\<close>

fun format_loop :: "bool \<Rightarrow> string list \<Rightarrow> string \<Rightarrow> string" where
  "format_loop pads_year [] date_str = date_str"
| "format_loop pads_year (fmt # fmts) date_str =
     (case strptime date_str fmt of
        Some dt \<Rightarrow> strftime pads_year dt
      | None \<Rightarrow> format_loop pads_year fmts date_str)"

definition normalize_date :: "bool \<Rightarrow> string \<Rightarrow> string" where
  "normalize_date pads_year date_str = format_loop pads_year date_formats date_str"

subsection \<open>\<^verbatim>\<open>re.sub\<close>\<close>

text \<open>
  \<^verbatim>\<open>re.sub(pattern, repl, s)\<close> scans the text from left to right and replaces every
  match by \<open>repl\<close>, going on after the match. A pattern is given by its matcher, which
  returns the length of the match at the start of a text, if there is one. None of the
  script's patterns matches the empty string, and a length of zero counts as no match.
\<close>

function re_sub :: "(string \<Rightarrow> nat option) \<Rightarrow> string \<Rightarrow> string \<Rightarrow> string" where
  "re_sub pattern repl [] = []"
| "re_sub pattern repl (c # cs) =
     (case pattern (c # cs) of
        None \<Rightarrow> c # re_sub pattern repl cs
      | Some 0 \<Rightarrow> c # re_sub pattern repl cs
      | Some (Suc n) \<Rightarrow> repl @ re_sub pattern repl (drop n cs))"
  by pat_completeness auto
termination
  by (relation "measure (\<lambda>(pattern, repl, s). length s)") auto

text \<open>
  The alternatives of the first pattern, in the order in which the regular expression
  tries them. The text has been lowered and the alternatives are in lower case, so the
  flag \<^verbatim>\<open>re.I\<close> changes nothing.
\<close>

definition boilerplate :: "string list" where
  "boilerplate = [''payment to'', ''payment from'', ''purchase at'', ''pos '', ''txn*'',
                  ''debit card '', ''card purchase '', ''ach '', ''direct deposit '']"

definition boilerplate_pattern :: "string \<Rightarrow> nat option" where
  "boilerplate_pattern s = map_option length (find (\<lambda>phrase. prefix phrase s) boilerplate)"

text \<open>\<^verbatim>\<open>\d{6,}\<close>: greedy, so the whole run of digits, when it has six or more.\<close>

definition long_number_pattern :: "string \<Rightarrow> nat option" where
  "long_number_pattern s =
     (let n = length (takeWhile is_digit s) in if 6 \<le> n then Some n else None)"

text \<open>\<^verbatim>\<open>\d{2}/\d{2}\<close>\<close>

definition short_date_pattern :: "string \<Rightarrow> nat option" where
  "short_date_pattern s =
     (case s of
        a # b # c # d # e # rest \<Rightarrow>
          if is_digit a \<and> is_digit b \<and> c = CHR ''/'' \<and> is_digit d \<and> is_digit e
          then Some 5 else None
      | _ \<Rightarrow> None)"

text \<open>\<^verbatim>\<open>\s+\<close>\<close>

definition spaces_pattern :: "string \<Rightarrow> nat option" where
  "spaces_pattern s =
     (let n = length (takeWhile is_space s) in if 1 \<le> n then Some n else None)"

subsection \<open>\<^verbatim>\<open>extract_merchant\<close>\<close>

text \<open>The four substitutions of \<^verbatim>\<open>extract_merchant\<close>: the value of \<^verbatim>\<open>cleaned\<close> before the split.\<close>

definition cleaned :: "string \<Rightarrow> string" where
  "cleaned description =
     (let cleaned = re_sub boilerplate_pattern [] (lower description);
          cleaned = re_sub long_number_pattern [] cleaned;
          cleaned = re_sub short_date_pattern [] cleaned
      in strip (re_sub spaces_pattern '' '' cleaned))"

definition extract_merchant :: "string \<Rightarrow> string" where
  "extract_merchant description =
     (let words = split (cleaned description) in
      if words \<noteq> [] then join '' '' (map capitalize words)
      else description)"

subsection \<open>The data frame, exceptions and the runtime\<close>

text \<open>
  A cell of the frame that \<^verbatim>\<open>pd.read_csv\<close> returns is either missing (\<open>NA\<close>: \<^verbatim>\<open>pd.isna\<close>
  holds, and \<^verbatim>\<open>str\<close> gives \<^verbatim>\<open>nan\<close>) or has a value, kept as the text that \<^verbatim>\<open>str\<close> gives for
  it. A frame is its column labels and its rows, each row with one cell for each label.
\<close>

datatype cell = NA | Val string

record dataframe =
  columns :: "string list"
  rows :: "cell list list"

text \<open>
  \<^verbatim>\<open>row[label]\<close> is the cell under the label, or the series of the cells under it
  when several columns have the label.
\<close>

datatype item = Scalar cell | Series "cell list"

text \<open>
  The exceptions that the body of \<^verbatim>\<open>process_csv\<close> can raise: whatever \<^verbatim>\<open>pd.read_csv\<close>
  raises (with its message), an index past the last column (the index and the number
  of columns), a label that no column has, a text that \<^verbatim>\<open>float\<close> rejects (the text), and
  the truth value of a series.
\<close>

datatype exn =
    ReadError string
  | IndexError nat nat
  | KeyError string
  | FloatError string
  | TruthValueError

text \<open>
  What the script takes from outside and the model leaves open: reading the file,
  \<^verbatim>\<open>float\<close> on a text (\<open>None\<close> is a \<^verbatim>\<open>ValueError\<close>), \<^verbatim>\<open>str\<close> of a series, \<^verbatim>\<open>str\<close> of an
  exception, \<^verbatim>\<open>repr\<close> of a finite float, and whether \<^verbatim>\<open>strftime\<close> pads the year.
\<close>

record runtime =
  read_csv :: "string \<Rightarrow> exn + dataframe"
  float :: "string \<Rightarrow> pyfloat option"
  str_series :: "cell list \<Rightarrow> string"
  str_exn :: "exn \<Rightarrow> string"
  repr_float :: "real \<Rightarrow> string"
  pads_year :: bool

definition getitem :: "string list \<Rightarrow> cell list \<Rightarrow> string \<Rightarrow> exn + item" where
  "getitem cols row label =
     (case map snd (filter (\<lambda>(col, c). col = label) (zip cols row)) of
        [] \<Rightarrow> Inl (KeyError label)
      | [c] \<Rightarrow> Inr (Scalar c)
      | cs \<Rightarrow> Inr (Series cs))"

text \<open>\<^verbatim>\<open>str(row[label])\<close>\<close>

fun str_item :: "runtime \<Rightarrow> item \<Rightarrow> string" where
  "str_item rt (Scalar NA) = ''nan''"
| "str_item rt (Scalar (Val s)) = s"
| "str_item rt (Series cs) = str_series rt cs"

text \<open>\<^verbatim>\<open>not pd.isna(row[label])\<close>: a series of two or more cells has no truth value.\<close>

fun not_isna :: "item \<Rightarrow> exn + bool" where
  "not_isna (Scalar NA) = Inr False"
| "not_isna (Scalar (Val s)) = Inr True"
| "not_isna (Series cs) = Inl TruthValueError"

text \<open>\<^verbatim>\<open>float(str(x).replace('$', '').replace(',', ''))\<close>\<close>

definition to_amount :: "runtime \<Rightarrow> item \<Rightarrow> exn + pyfloat" where
  "to_amount rt x =
     (let s = remove_char (CHR '','') (remove_char (CHR ''$'') (str_item rt x)) in
      case float rt s of None \<Rightarrow> Inl (FloatError s) | Some v \<Rightarrow> Inr v)"

subsection \<open>\<^verbatim>\<open>process_csv\<close>\<close>

text \<open>\<^verbatim>\<open>[col.lower().replace(' ', '_') for col in df.columns]\<close>\<close>

definition normalize_columns :: "string list \<Rightarrow> string list" where
  "normalize_columns cols = map (\<lambda>col. replace_char (CHR '' '') (CHR ''_'') (lower col)) cols"

text \<open>\<^verbatim>\<open>df.columns[i]\<close>\<close>

definition column_at :: "string list \<Rightarrow> nat \<Rightarrow> exn + string" where
  "column_at cols i = (if i < length cols then Inr (cols ! i) else Inl (IndexError i (length cols)))"

text \<open>
  \<^verbatim>\<open>next((col for col in df.columns if p(col)), df.columns[i])\<close>. Python evaluates both
  arguments of \<^verbatim>\<open>next\<close> before the call, so the default is looked up, and can raise,
  even when a column satisfies \<open>p\<close>.
\<close>

definition next_column :: "(string \<Rightarrow> bool) \<Rightarrow> string list \<Rightarrow> nat \<Rightarrow> exn + string" where
  "next_column p cols i =
     (case column_at cols i of
        Inl e \<Rightarrow> Inl e
      | Inr fallback \<Rightarrow> Inr (case find p cols of Some col \<Rightarrow> col | None \<Rightarrow> fallback))"

record column_roles =
  date_col :: string
  desc_col :: string
  amount_col :: string

definition identify_columns :: "string list \<Rightarrow> exn + column_roles" where
  "identify_columns cols =
     (case next_column (\<lambda>col. str_in ''date'' col) cols 0 of
        Inl e \<Rightarrow> Inl e
      | Inr dc \<Rightarrow>
     (case next_column (\<lambda>col. str_in ''desc'' col \<or> str_in ''narr'' col) cols 1 of
        Inl e \<Rightarrow> Inl e
      | Inr sc \<Rightarrow>
     (case next_column (\<lambda>col. str_in ''amount'' col \<or> str_in ''sum'' col) cols 2 of
        Inl e \<Rightarrow> Inl e
      | Inr ac \<Rightarrow> Inr \<lparr>date_col = dc, desc_col = sc, amount_col = ac\<rparr>)))"

text \<open>The test \<^verbatim>\<open>label in df.columns and not pd.isna(row[label])\<close>.\<close>

definition has_value :: "string list \<Rightarrow> cell list \<Rightarrow> string \<Rightarrow> exn + bool" where
  "has_value cols row label =
     (if label \<in> set cols then
        (case getitem cols row label of Inl e \<Rightarrow> Inl e | Inr x \<Rightarrow> not_isna x)
      else Inr False)"

text \<open>
  The signed amount of a row: the amount column first, which must parse in any case,
  then a debit cell with a value, negated, or else a credit cell with a value.
\<close>

definition row_amount :: "runtime \<Rightarrow> string list \<Rightarrow> column_roles \<Rightarrow> cell list \<Rightarrow> exn + pyfloat" where
  "row_amount rt cols roles row =
     (case getitem cols row (amount_col roles) of
        Inl e \<Rightarrow> Inl e
      | Inr x \<Rightarrow>
     (case to_amount rt x of
        Inl e \<Rightarrow> Inl e
      | Inr signed \<Rightarrow>
     (case has_value cols row ''debit'' of
        Inl e \<Rightarrow> Inl e
      | Inr True \<Rightarrow>
          (case getitem cols row ''debit'' of
             Inl e \<Rightarrow> Inl e
           | Inr d \<Rightarrow> (case to_amount rt d of Inl e \<Rightarrow> Inl e | Inr v \<Rightarrow> Inr (fneg v)))
      | Inr False \<Rightarrow>
     (case has_value cols row ''credit'' of
        Inl e \<Rightarrow> Inl e
      | Inr True \<Rightarrow>
          (case getitem cols row ''credit'' of
             Inl e \<Rightarrow> Inl e
           | Inr c \<Rightarrow> to_amount rt c)
      | Inr False \<Rightarrow> Inr signed))))"

record transaction =
  date :: string
  description :: string
  amount :: pyfloat
  isExpense :: bool
  category :: string
  merchant :: string
  originalDescription :: string

text \<open>The body of the loop over the rows.\<close>

definition process_row :: "runtime \<Rightarrow> string list \<Rightarrow> column_roles \<Rightarrow> cell list \<Rightarrow> exn + transaction" where
  "process_row rt cols roles row =
     (case getitem cols row (date_col roles) of
        Inl e \<Rightarrow> Inl e
      | Inr x \<Rightarrow>
     (case getitem cols row (desc_col roles) of
        Inl e \<Rightarrow> Inl e
      | Inr y \<Rightarrow>
     (case row_amount rt cols roles row of
        Inl e \<Rightarrow> Inl e
      | Inr signed \<Rightarrow>
          Inr \<lparr>date = normalize_date (pads_year rt) (str_item rt x),
               description = str_item rt y,
               amount = fabs signed,
               isExpense = flt0 signed,
               category = categorize_transaction (str_item rt y) signed,
               merchant = extract_merchant (str_item rt y),
               originalDescription = str_item rt y\<rparr>)))"

text \<open>\<^verbatim>\<open>for _, row in df.iterrows()\<close>: the first row that raises ends the loop.\<close>

fun iterrows :: "runtime \<Rightarrow> string list \<Rightarrow> column_roles \<Rightarrow> cell list list \<Rightarrow> exn + transaction list" where
  "iterrows rt cols roles [] = Inr []"
| "iterrows rt cols roles (row # rest) =
     (case process_row rt cols roles row of
        Inl e \<Rightarrow> Inl e
      | Inr t \<Rightarrow>
          (case iterrows rt cols roles rest of
             Inl e \<Rightarrow> Inl e
           | Inr ts \<Rightarrow> Inr (t # ts)))"

text \<open>The \<^verbatim>\<open>try\<close> block of \<^verbatim>\<open>process_csv\<close>.\<close>

definition process_csv_try :: "runtime \<Rightarrow> string \<Rightarrow> exn + transaction list" where
  "process_csv_try rt file_path =
     (case read_csv rt file_path of
        Inl e \<Rightarrow> Inl e
      | Inr df \<Rightarrow>
     (let cols = normalize_columns (columns df) in
      case identify_columns cols of
        Inl e \<Rightarrow> Inl e
      | Inr roles \<Rightarrow> iterrows rt cols roles (rows df)))"

text \<open>The value of \<^verbatim>\<open>process_csv\<close>: the list of transactions, or the dictionary with the key \<^verbatim>\<open>error\<close>.\<close>

datatype result = Transactions "transaction list" | Error string

definition process_csv :: "runtime \<Rightarrow> string \<Rightarrow> result" where
  "process_csv rt file_path =
     (case process_csv_try rt file_path of
        Inr transactions \<Rightarrow> Transactions transactions
      | Inl e \<Rightarrow> Error (str_exn rt e))"

subsection \<open>The entry point and \<^verbatim>\<open>json.dumps\<close>\<close>

datatype json =
    JString string
  | JNumber pyfloat
  | JBool bool
  | JArray "json list"
  | JObject "(string \<times> json) list"

definition hex_digits :: string where
  "hex_digits = ''0123456789abcdef''"

text \<open>
  The text of a character inside a JSON string: the quote, the backslash and the
  characters outside the printable range (space to tilde) are escaped.
\<close>

definition escape_char :: "char \<Rightarrow> string" where
  "escape_char c =
     (if c = CHR 0x22 then [CHR 0x5C, CHR 0x22]
      else if c = CHR 0x5C then [CHR 0x5C, CHR 0x5C]
      else if c = CHR 0x0A then [CHR 0x5C, CHR ''n'']
      else if c = CHR 0x0D then [CHR 0x5C, CHR ''r'']
      else if c = CHR 0x09 then [CHR 0x5C, CHR ''t'']
      else if c = CHR 0x08 then [CHR 0x5C, CHR ''b'']
      else if c = CHR 0x0C then [CHR 0x5C, CHR ''f'']
      else if 32 \<le> (of_char c :: nat) \<and> (of_char c :: nat) \<le> 126 then [c]
      else [CHR 0x5C, CHR ''u'', CHR ''0'', CHR ''0'',
            hex_digits ! ((of_char c :: nat) div 16), hex_digits ! ((of_char c :: nat) mod 16)])"

definition json_string :: "string \<Rightarrow> string" where
  "json_string s = [CHR 0x22] @ concat (map escape_char s) @ [CHR 0x22]"

fun json_dumps :: "runtime \<Rightarrow> json \<Rightarrow> string" where
  "json_dumps rt (JString s) = json_string s"
| "json_dumps rt (JNumber (Fin r)) = repr_float rt r"
| "json_dumps rt (JNumber PInf) = ''Infinity''"
| "json_dumps rt (JNumber NInf) = ''-Infinity''"
| "json_dumps rt (JNumber NaN) = ''NaN''"
| "json_dumps rt (JBool b) = (if b then ''true'' else ''false'')"
| "json_dumps rt (JArray xs) = ''['' @ join '', '' (map (json_dumps rt) xs) @ '']''"
| "json_dumps rt (JObject kvs) =
     ''{'' @ join '', '' (map (\<lambda>(k, v). json_string k @ '': '' @ json_dumps rt v) kvs) @ ''}''"

definition transaction_json :: "transaction \<Rightarrow> json" where
  "transaction_json t =
     JObject [(''date'', JString (date t)),
              (''description'', JString (description t)),
              (''amount'', JNumber (amount t)),
              (''isExpense'', JBool (isExpense t)),
              (''category'', JString (category t)),
              (''merchant'', JString (merchant t)),
              (''originalDescription'', JString (originalDescription t))]"

fun result_json :: "result \<Rightarrow> json" where
  "result_json (Transactions ts) = JArray (map transaction_json ts)"
| "result_json (Error msg) = JObject [(''error'', JString msg)]"

text \<open>
  A run of the script: the lines it prints and its exit status. \<open>argv\<close> is \<^verbatim>\<open>sys.argv\<close>,
  the name of the script first.
\<close>

record run =
  stdout :: "string list"
  exit_status :: nat

definition main :: "runtime \<Rightarrow> string list \<Rightarrow> run" where
  "main rt argv =
     (if length argv < 2 then
        \<lparr>stdout = [json_dumps rt (JObject [(''error'', JString ''No file path provided'')])],
         exit_status = 1\<rparr>
      else
        let file_path = argv ! 1;
            result = process_csv rt file_path
        in \<lparr>stdout = [json_dumps rt (result_json result)], exit_status = 0\<rparr>)"

subsection \<open>An example runtime\<close>

text \<open>
  A runtime with three files and a \<^verbatim>\<open>float\<close> that knows the texts of those files.
  \<^verbatim>\<open>bank.csv\<close> has two rows: the first has both a debit and a credit, the second has
  neither, and its amount is written with a dollar sign and a comma. \<^verbatim>\<open>bad.csv\<close> has a
  good row and then a row whose amount is not a number. \<^verbatim>\<open>short.csv\<close> has two columns.
  Any other file cannot be read.
\<close>

definition example_float :: "string \<Rightarrow> pyfloat option" where
  "example_float = map_of [(''0'', Fin 0), (''4.50'', Fin (9 / 2)), (''9.00'', Fin 9),
                           (''1200.00'', Fin 1200), (''nan'', NaN)]"

definition example_frame :: dataframe where
  "example_frame =
     \<lparr>columns = [''Date'', ''Description'', ''Amount'', ''Debit'', ''Credit''],
      rows = [[Val ''01/02/2023'', Val ''Coffee and Uber'', Val ''0'', Val ''4.50'', Val ''9.00''],
              [Val ''2023-01-05'', Val ''Direct Deposit ACME'', Val ''$1,200.00'', NA, NA]]\<rparr>"

definition example_bad_frame :: dataframe where
  "example_bad_frame =
     \<lparr>columns = [''Date'', ''Description'', ''Amount''],
      rows = [[Val ''01/02/2023'', Val ''Coffee'', Val ''4.50''],
              [Val ''01/03/2023'', Val ''Tea'', Val ''four'']]\<rparr>"

definition example_short_frame :: dataframe where
  "example_short_frame =
     \<lparr>columns = [''Date'', ''Amount''], rows = [[Val ''01/02/2023'', Val ''4.50'']]\<rparr>"

fun example_str_exn :: "exn \<Rightarrow> string" where
  "example_str_exn (ReadError msg) = msg"
| "example_str_exn (IndexError i n) = ''index out of bounds''"
| "example_str_exn (KeyError label) = label"
| "example_str_exn (FloatError s) = ''could not convert string to float: '' @ s"
| "example_str_exn TruthValueError = ''The truth value of a Series is ambiguous''"

definition example_runtime :: runtime where
  "example_runtime =
     \<lparr>read_csv = (\<lambda>path. if path = ''bank.csv'' then Inr example_frame
                         else if path = ''bad.csv'' then Inr example_bad_frame
                         else if path = ''short.csv'' then Inr example_short_frame
                         else Inl (ReadError ''No such file'')),
      float = example_float,
      str_series = (\<lambda>cs. ''dtype: object''),
      str_exn = example_str_exn,
      repr_float = (\<lambda>r. ''0.0''),
      pads_year = True\<rparr>"

definition example_columns :: "string list" where
  "example_columns = [''date'', ''description'', ''amount'', ''debit'', ''credit'']"

definition example_roles :: column_roles where
  "example_roles = \<lparr>date_col = ''date'', desc_col = ''description'', amount_col = ''amount''\<rparr>"

definition example_output :: "transaction list" where
  "example_output =
     [\<lparr>date = ''2023-01-02'', description = ''Coffee and Uber'', amount = Fin (9 / 2),
       isExpense = True, category = ''dining'', merchant = ''Coffee And Uber'',
       originalDescription = ''Coffee and Uber''\<rparr>,
      \<lparr>date = ''2023-01-05'', description = ''Direct Deposit ACME'', amount = Fin 1200,
       isExpense = False, category = ''income'', merchant = ''Acme'',
       originalDescription = ''Direct Deposit ACME''\<rparr>]"

subsection \<open>Notions of the specification\<close>

text \<open>
  The specification's description of the categoriser, in its own words: a keyword
  matches when it occurs in the description as a substring, ignoring case; the
  categories are scanned in a fixed order; the first one with a matching keyword wins.
\<close>

definition occurs_ignoring_case :: "string \<Rightarrow> string \<Rightarrow> bool" where
  "occurs_ignoring_case k s = (\<exists>p u q. s = p @ u @ q \<and> lower u = lower k)"

definition category_order :: "string list" where
  "category_order = [''groceries'', ''dining'', ''transportation'', ''utilities'',
                     ''entertainment'', ''shopping'', ''housing'']"

definition keywords_of :: "string \<Rightarrow> string list" where
  "keywords_of c = (case map_of categories c of Some ks \<Rightarrow> ks | None \<Rightarrow> [])"

definition first_matching_category :: "string \<Rightarrow> string option" where
  "first_matching_category d =
     find (\<lambda>c. \<exists>k\<in>set (keywords_of c). occurs_ignoring_case k d) category_order"

text \<open>
  What the specification asks of a merchant name: no run of six or more digits, no
  fragment of two digits, a slash and two digits, and none of the boilerplate phrases,
  in whatever case.
\<close>

definition has_long_number :: "string \<Rightarrow> bool" where
  "has_long_number s = (\<exists>p r q. s = p @ r @ q \<and> 6 \<le> length r \<and> list_all is_digit r)"

definition has_short_date :: "string \<Rightarrow> bool" where
  "has_short_date s =
     (\<exists>p a b c d q. s = p @ [a, b, CHR ''/'', c, d] @ q \<and>
        is_digit a \<and> is_digit b \<and> is_digit c \<and> is_digit d)"

definition has_boilerplate :: "string \<Rightarrow> bool" where
  "has_boilerplate s = (\<exists>phrase\<in>set boilerplate. occurs_ignoring_case phrase s)"

section \<open>Properties\<close>

subsection \<open>Unfolding the model\<close>

lemmas string_defs =
  ascii_uppercase_def ascii_lowercase_def digits_def nonzero_digits_def whitespace_def
  is_digit_def is_space_def lower_char_def upper_char_def lower_def remove_char_def
  replace_char_def strip_def split_def

lemmas date_defs =
  normalize_date_def date_formats_def strptime_def strftime_def zero_pad_def directive_of_def
  str_nat.simps
  valid_date_def days_in_month_def is_leap_def int_of_group_def digit_val_def

lemmas merchant_defs =
  extract_merchant_def cleaned_def boilerplate_def boilerplate_pattern_def
  long_number_pattern_def short_date_pattern_def spaces_pattern_def

lemmas pipeline_defs =
  process_csv_def process_csv_try_def process_row_def row_amount_def has_value_def
  identify_columns_def next_column_def column_at_def normalize_columns_def to_amount_def
  getitem_def categorize_transaction_def categories_def

lemmas example_defs =
  example_runtime_def example_frame_def example_bad_frame_def example_short_frame_def
  example_float_def example_output_def example_columns_def example_roles_def

subsection \<open>The example runtime, evaluated\<close>

lemma example_strings:
  "normalize_date True ''01/02/2023'' = ''2023-01-02''"
  "normalize_date True ''2023-01-05'' = ''2023-01-05''"
  "extract_merchant ''Coffee and Uber'' = ''Coffee And Uber''"
  "extract_merchant ''Direct Deposit ACME'' = ''Acme''"
  "category_loop categories (lower ''Coffee and Uber'') = ''dining''"
  "extract_merchant ''Coffee'' = ''Coffee''"
  "category_loop categories (lower ''Coffee'') = ''dining''"
  by (simp_all add: date_defs merchant_defs string_defs categories_def)

lemma example_identify:
  "normalize_columns (columns example_frame) = example_columns"
  "identify_columns example_columns = Inr example_roles"
  "normalize_columns (columns example_bad_frame) = [''date'', ''description'', ''amount'']"
  "identify_columns [''date'', ''description'', ''amount''] = Inr example_roles"
  by (simp_all add: normalize_columns_def identify_columns_def next_column_def column_at_def
        string_defs example_defs)

lemmas row_defs =
  process_row_def row_amount_def has_value_def to_amount_def getitem_def
  categorize_transaction_def remove_char_def

lemma example_rows:
  "row_amount example_runtime example_columns example_roles (rows example_frame ! 0)
     = Inr (Fin (- (9 / 2)))"
  "row_amount example_runtime example_columns example_roles (rows example_frame ! 1)
     = Inr (Fin 1200)"
  "process_row example_runtime example_columns example_roles (rows example_frame ! 0)
     = Inr (example_output ! 0)"
  "process_row example_runtime example_columns example_roles (rows example_frame ! 1)
     = Inr (example_output ! 1)"
  by (simp_all add: row_defs example_defs example_strings)

lemma example_read:
  "read_csv example_runtime ''bank.csv'' = Inr example_frame"
  "read_csv example_runtime ''bad.csv'' = Inr example_bad_frame"
  "read_csv example_runtime ''short.csv'' = Inr example_short_frame"
  "read_csv example_runtime ''missing.csv'' = Inl (ReadError ''No such file'')"
  by (simp_all add: example_runtime_def)

lemma example_messages: "str_exn example_runtime = example_str_exn"
  by (simp add: example_runtime_def)

lemma example_run:
  "process_csv example_runtime ''bank.csv'' = Transactions example_output"
proof -
  have "iterrows example_runtime example_columns example_roles (rows example_frame)
          = Inr example_output"
    using example_rows(3,4) by (simp add: example_frame_def example_output_def)
  then show ?thesis
    by (simp add: process_csv_def process_csv_try_def example_read example_identify)
qed

subsection \<open>The row pipeline\<close>

lemma process_row_amount:
  assumes "process_row rt cols roles row = Inr t"
  shows "\<exists>a. row_amount rt cols roles row = Inr a \<and> amount t = fabs a \<and> isExpense t = flt0 a
           \<and> category t = categorize_transaction (description t) a"
  using assms by (auto simp: process_row_def split: sum.splits)

lemma iterrows_Inr_all2:
  "iterrows rt cols roles rs = Inr ts \<Longrightarrow>
   list_all2 (\<lambda>row t. process_row rt cols roles row = Inr t) rs ts"
  by (induction rs arbitrary: ts) (auto split: sum.splits)

lemma all2_iterrows_Inr:
  "list_all2 (\<lambda>row t. process_row rt cols roles row = Inr t) rs ts \<Longrightarrow>
   iterrows rt cols roles rs = Inr ts"
  by (induction rs ts rule: list_all2_induct) auto

lemma iterrows_error:
  "(\<exists>e. iterrows rt cols roles rs = Inl e) \<longleftrightarrow>
   (\<exists>row\<in>set rs. \<exists>e. process_row rt cols roles row = Inl e)"
  by (induction rs) (auto split: sum.splits)

lemma fabs_not_negative: "\<not> flt0 (fabs a)"
  by (cases a) auto

lemma fabs_ge0: "a \<noteq> NaN \<Longrightarrow> fge0 (fabs a)"
  by (cases a) auto

lemma process_csv_Transactions:
  "process_csv rt path = Transactions ts \<longleftrightarrow> process_csv_try rt path = Inr ts"
  by (auto simp: process_csv_def split: sum.splits)

lemma process_csv_try_Inr:
  "process_csv_try rt path = Inr ts \<longleftrightarrow>
     (\<exists>df roles. read_csv rt path = Inr df \<and>
        identify_columns (normalize_columns (columns df)) = Inr roles \<and>
        iterrows rt (normalize_columns (columns df)) roles (rows df) = Inr ts)"
  by (auto simp: process_csv_try_def Let_def split: sum.splits)

text \<open>
  Claim C1. When \<^verbatim>\<open>process_csv\<close> returns transactions, the file was read, its columns
  were identified, and the rows and the transactions correspond one to one: for each
  row the signed amount was resolved, the transaction's \<open>amount\<close> is the absolute value
  of that signed amount and is not below zero (it is at least zero unless the signed
  amount is not-a-number, whose absolute value is not-a-number), and \<open>isExpense\<close> holds
  exactly when the signed amount is below zero.
\<close>

theorem amount_is_magnitude:
  assumes "process_csv rt path = Transactions ts"
  shows "\<exists>df roles. read_csv rt path = Inr df \<and>
           identify_columns (normalize_columns (columns df)) = Inr roles \<and>
           list_all2
             (\<lambda>row t. \<exists>signed.
                row_amount rt (normalize_columns (columns df)) roles row = Inr signed \<and>
                amount t = fabs signed \<and> \<not> flt0 (amount t) \<and>
                (signed \<noteq> NaN \<longrightarrow> fge0 (amount t)) \<and>
                isExpense t = flt0 signed)
             (rows df) ts"
proof -
  from assms obtain df roles where
    df: "read_csv rt path = Inr df" and
    roles: "identify_columns (normalize_columns (columns df)) = Inr roles" and
    loop: "iterrows rt (normalize_columns (columns df)) roles (rows df) = Inr ts"
    unfolding process_csv_Transactions process_csv_try_Inr by blast
  have "list_all2 (\<lambda>row t. process_row rt (normalize_columns (columns df)) roles row = Inr t)
          (rows df) ts"
    using loop by (rule iterrows_Inr_all2)
  then have "list_all2
             (\<lambda>row t. \<exists>signed.
                row_amount rt (normalize_columns (columns df)) roles row = Inr signed \<and>
                amount t = fabs signed \<and> \<not> flt0 (amount t) \<and>
                (signed \<noteq> NaN \<longrightarrow> fge0 (amount t)) \<and>
                isExpense t = flt0 signed)
             (rows df) ts"
  proof (rule list_all2_mono)
    fix row t
    assume "process_row rt (normalize_columns (columns df)) roles row = Inr t"
    then obtain a where "row_amount rt (normalize_columns (columns df)) roles row = Inr a"
      "amount t = fabs a" "isExpense t = flt0 a"
      using process_row_amount by blast
    then show "\<exists>signed.
                row_amount rt (normalize_columns (columns df)) roles row = Inr signed \<and>
                amount t = fabs signed \<and> \<not> flt0 (amount t) \<and>
                (signed \<noteq> NaN \<longrightarrow> fge0 (amount t)) \<and>
                isExpense t = flt0 signed"
      by (auto simp: fabs_not_negative fabs_ge0)
  qed
  with df roles show ?thesis by blast
qed

theorem amount_is_magnitude_witness:
  "process_csv example_runtime ''bank.csv'' = Transactions example_output \<and>
   (\<exists>df roles. read_csv example_runtime ''bank.csv'' = Inr df \<and>
           identify_columns (normalize_columns (columns df)) = Inr roles \<and>
           list_all2
             (\<lambda>row t. \<exists>signed.
                row_amount example_runtime (normalize_columns (columns df)) roles row = Inr signed \<and>
                amount t = fabs signed \<and> \<not> flt0 (amount t) \<and>
                (signed \<noteq> NaN \<longrightarrow> fge0 (amount t)) \<and>
                isExpense t = flt0 signed)
             (rows df) example_output)"
  using amount_is_magnitude [OF example_run] example_run by (rule conjI [rotated])

text \<open>
  Claim C2. A signed amount above zero makes the categoriser answer \<open>income\<close> whatever
  the description is, so no keyword is looked at; and a row whose signed amount is
  above zero gives a transaction with \<open>isExpense\<close> false and category \<open>income\<close>.
\<close>

theorem positive_amount_is_income:
  "(fgt0 signed \<longrightarrow> categorize_transaction d signed = ''income'') \<and>
   (process_row rt cols roles row = Inr t \<and> row_amount rt cols roles row = Inr signed \<and>
      fgt0 signed \<longrightarrow> \<not> isExpense t \<and> category t = ''income'')"
proof -
  have income: "categorize_transaction d' signed = ''income''" if "fgt0 signed" for d'
    using that by (simp add: categorize_transaction_def)
  have "\<not> flt0 signed" if "fgt0 signed"
    using that by (cases signed) auto
  with income show ?thesis
    using process_row_amount [of rt cols roles row t] by auto
qed

theorem positive_amount_is_income_witness:
  "fgt0 (Fin 1200) \<and>
   categorize_transaction ''Coffee and Uber'' (Fin 1200) = ''income'' \<and>
   process_row example_runtime example_columns example_roles (rows example_frame ! 1)
     = Inr (example_output ! 1) \<and>
   row_amount example_runtime example_columns example_roles (rows example_frame ! 1)
     = Inr (Fin 1200) \<and>
   \<not> isExpense (example_output ! 1) \<and> category (example_output ! 1) = ''income''"
  using positive_amount_is_income [of "Fin 1200" "''Coffee and Uber''" example_runtime
      example_columns example_roles "rows example_frame ! 1" "example_output ! 1"]
    example_rows(2,4)
  by simp

subsection \<open>Debit and credit\<close>

lemma to_amount_Scalar:
  "to_amount rt (Scalar (Val s)) = Inr v \<longleftrightarrow>
   float rt (remove_char (CHR '','') (remove_char (CHR ''$'') s)) = Some v"
  by (auto simp: to_amount_def Let_def split: option.splits)

lemma has_value_cases:
  "has_value cols row label = Inr True \<longleftrightarrow>
     label \<in> set cols \<and> (\<exists>s. getitem cols row label = Inr (Scalar (Val s)))"
  "has_value cols row label = Inr False \<longleftrightarrow>
     label \<notin> set cols \<or> getitem cols row label = Inr (Scalar NA)"
proof -
  have *: "not_isna x = Inr True \<longleftrightarrow> (\<exists>s. x = Scalar (Val s))"
          "not_isna x = Inr False \<longleftrightarrow> x = Scalar NA" for x
    by (cases x rule: not_isna.cases; simp)+
  show "has_value cols row label = Inr True \<longleftrightarrow>
     label \<in> set cols \<and> (\<exists>s. getitem cols row label = Inr (Scalar (Val s)))"
    by (auto simp: has_value_def * split: sum.splits)
  show "has_value cols row label = Inr False \<longleftrightarrow>
     label \<notin> set cols \<or> getitem cols row label = Inr (Scalar NA)"
    by (auto simp: has_value_def * split: sum.splits)
qed

lemma row_amount_Inr:
  "row_amount rt cols roles row = Inr signed \<longleftrightarrow>
     (\<exists>x a. getitem cols row (amount_col roles) = Inr x \<and> to_amount rt x = Inr a \<and>
        (has_value cols row ''debit'' = Inr True \<and>
           (\<exists>d v. getitem cols row ''debit'' = Inr d \<and> to_amount rt d = Inr v \<and> signed = fneg v)
         \<or> has_value cols row ''debit'' = Inr False \<and> has_value cols row ''credit'' = Inr True \<and>
           (\<exists>c. getitem cols row ''credit'' = Inr c \<and> to_amount rt c = Inr signed)
         \<or> has_value cols row ''debit'' = Inr False \<and> has_value cols row ''credit'' = Inr False \<and>
           signed = a))"
  by (auto simp: row_amount_def split: sum.splits bool.splits)

text \<open>
  Claim C6. When the signed amount of a row is resolved: a debit column whose cell has
  a value makes it the negation of that cell's cleaned number, whatever the credit cell
  and the amount column hold; a credit cell with a value decides only when there is no
  debit column or the debit cell is empty, and then the amount is the credit cell's
  cleaned number as it is; with neither, the amount column decides. Conversely, when
  the amount column parses and the debit cell has a value that parses, the signed
  amount is resolved, to the negated debit.
\<close>

theorem debit_before_credit:
  "(row_amount rt cols roles row = Inr signed \<longrightarrow>
      (\<forall>s. ''debit'' \<in> set cols \<and> getitem cols row ''debit'' = Inr (Scalar (Val s)) \<longrightarrow>
         (\<exists>v. float rt (remove_char (CHR '','') (remove_char (CHR ''$'') s)) = Some v \<and>
              signed = fneg v)) \<and>
      (\<forall>s. (''debit'' \<notin> set cols \<or> getitem cols row ''debit'' = Inr (Scalar NA)) \<and>
           ''credit'' \<in> set cols \<and> getitem cols row ''credit'' = Inr (Scalar (Val s)) \<longrightarrow>
         float rt (remove_char (CHR '','') (remove_char (CHR ''$'') s)) = Some signed) \<and>
      ((''debit'' \<notin> set cols \<or> getitem cols row ''debit'' = Inr (Scalar NA)) \<and>
       (''credit'' \<notin> set cols \<or> getitem cols row ''credit'' = Inr (Scalar NA)) \<longrightarrow>
         (\<exists>x. getitem cols row (amount_col roles) = Inr x \<and> to_amount rt x = Inr signed))) \<and>
   (\<forall>x a s v. getitem cols row (amount_col roles) = Inr x \<and> to_amount rt x = Inr a \<and>
        ''debit'' \<in> set cols \<and> getitem cols row ''debit'' = Inr (Scalar (Val s)) \<and>
        float rt (remove_char (CHR '','') (remove_char (CHR ''$'') s)) = Some v \<longrightarrow>
        row_amount rt cols roles row = Inr (fneg v))"
proof (intro conjI impI allI)
  fix s
  assume "row_amount rt cols roles row = Inr signed"
    and "''debit'' \<in> set cols \<and> getitem cols row ''debit'' = Inr (Scalar (Val s))"
  then show "\<exists>v. float rt (remove_char (CHR '','') (remove_char (CHR ''$'') s)) = Some v \<and>
              signed = fneg v"
    unfolding row_amount_Inr has_value_cases by (auto simp: to_amount_Scalar)
next
  fix s
  assume "row_amount rt cols roles row = Inr signed"
    and "(''debit'' \<notin> set cols \<or> getitem cols row ''debit'' = Inr (Scalar NA)) \<and>
           ''credit'' \<in> set cols \<and> getitem cols row ''credit'' = Inr (Scalar (Val s))"
  then show "float rt (remove_char (CHR '','') (remove_char (CHR ''$'') s)) = Some signed"
    unfolding row_amount_Inr has_value_cases by (auto simp: to_amount_Scalar)
next
  assume "row_amount rt cols roles row = Inr signed"
    and "(''debit'' \<notin> set cols \<or> getitem cols row ''debit'' = Inr (Scalar NA)) \<and>
       (''credit'' \<notin> set cols \<or> getitem cols row ''credit'' = Inr (Scalar NA))"
  then show "\<exists>x. getitem cols row (amount_col roles) = Inr x \<and> to_amount rt x = Inr signed"
    unfolding row_amount_Inr has_value_cases by auto
next
  fix x a s v
  assume "getitem cols row (amount_col roles) = Inr x \<and> to_amount rt x = Inr a \<and>
        ''debit'' \<in> set cols \<and> getitem cols row ''debit'' = Inr (Scalar (Val s)) \<and>
        float rt (remove_char (CHR '','') (remove_char (CHR ''$'') s)) = Some v"
  then show "row_amount rt cols roles row = Inr (fneg v)"
    unfolding row_amount_Inr has_value_cases by (auto simp: to_amount_Scalar)
qed

lemma example_getitem:
  "getitem example_columns (rows example_frame ! 0) ''debit'' = Inr (Scalar (Val ''4.50''))"
  "getitem example_columns (rows example_frame ! 0) ''credit'' = Inr (Scalar (Val ''9.00''))"
  "''debit'' \<in> set example_columns"
  "float example_runtime (remove_char (CHR '','') (remove_char (CHR ''$'') ''4.50''))
     = Some (Fin (9 / 2))"
  by (simp_all add: getitem_def remove_char_def example_defs)

theorem debit_before_credit_witness:
  "row_amount example_runtime example_columns example_roles (rows example_frame ! 0)
     = Inr (Fin (- (9 / 2))) \<and>
   getitem example_columns (rows example_frame ! 0) ''debit'' = Inr (Scalar (Val ''4.50'')) \<and>
   getitem example_columns (rows example_frame ! 0) ''credit'' = Inr (Scalar (Val ''9.00'')) \<and>
   (\<exists>v. float example_runtime (remove_char (CHR '','') (remove_char (CHR ''$'') ''4.50''))
           = Some v \<and> Fin (- (9 / 2)) = fneg v)"
  using debit_before_credit [of example_runtime example_columns example_roles
      "rows example_frame ! 0" "Fin (- (9 / 2))"] example_getitem example_rows(1)
  by simp

subsection \<open>All or nothing\<close>

lemma identify_columns_short:
  assumes "length cols < 3"
  shows "\<exists>i. identify_columns cols = Inl (IndexError i (length cols))"
  using assms
  by (auto simp: identify_columns_def next_column_def column_at_def split: sum.splits)

lemma identify_columns_long:
  assumes "3 \<le> length cols"
  shows "\<exists>roles. identify_columns cols = Inr roles"
  using assms
  by (auto simp: identify_columns_def next_column_def column_at_def split: sum.splits)

lemma process_row_bad_amount:
  assumes "getitem cols row (amount_col roles) = Inr x"
    and "float rt (remove_char (CHR '','') (remove_char (CHR ''$'') (str_item rt x))) = None"
  shows "\<exists>e. process_row rt cols roles row = Inl e"
  using assms
  by (auto simp: process_row_def row_amount_def to_amount_def Let_def split: sum.splits)

lemma process_csv_try_Inl:
  "(\<exists>e. process_csv_try rt path = Inl e) \<longleftrightarrow>
     (\<exists>e. read_csv rt path = Inl e) \<or>
     (\<exists>df. read_csv rt path = Inr df \<and>
        ((\<exists>e. identify_columns (normalize_columns (columns df)) = Inl e) \<or>
         (\<exists>roles. identify_columns (normalize_columns (columns df)) = Inr roles \<and>
            (\<exists>row\<in>set (rows df). \<exists>e.
               process_row rt (normalize_columns (columns df)) roles row = Inl e))))"
  unfolding process_csv_try_def Let_def
  by (auto simp: iterrows_error [symmetric] split: sum.splits)

lemma process_csv_Error:
  "(\<exists>msg. process_csv rt path = Error msg) \<longleftrightarrow> (\<exists>e. process_csv_try rt path = Inl e)"
  by (auto simp: process_csv_def split: sum.splits)

text \<open>
  Claim C3. \<^verbatim>\<open>process_csv\<close> returns the error object when reading the file raises, when
  the frame has fewer than three columns (so that a positional default does not
  exist), when any row raises, and in particular when the amount cell of any row,
  cleaned, is not a number. When it returns transactions, the file was read, the
  columns were identified, and every row of the file gave its transaction, in order:
  the list is never a part of the rows.
\<close>

theorem all_or_nothing:
  "(\<forall>e. read_csv rt path = Inl e \<longrightarrow> process_csv rt path = Error (str_exn rt e)) \<and>
   (\<forall>df. read_csv rt path = Inr df \<and> length (columns df) < 3 \<longrightarrow>
      (\<exists>msg. process_csv rt path = Error msg)) \<and>
   (\<forall>df roles row e.
      read_csv rt path = Inr df \<and>
      identify_columns (normalize_columns (columns df)) = Inr roles \<and>
      row \<in> set (rows df) \<and>
      process_row rt (normalize_columns (columns df)) roles row = Inl e \<longrightarrow>
      (\<exists>msg. process_csv rt path = Error msg)) \<and>
   (\<forall>df roles row x.
      read_csv rt path = Inr df \<and>
      identify_columns (normalize_columns (columns df)) = Inr roles \<and>
      row \<in> set (rows df) \<and>
      getitem (normalize_columns (columns df)) row (amount_col roles) = Inr x \<and>
      float rt (remove_char (CHR '','') (remove_char (CHR ''$'') (str_item rt x))) = None \<longrightarrow>
      (\<exists>msg. process_csv rt path = Error msg)) \<and>
   (\<forall>ts. process_csv rt path = Transactions ts \<longrightarrow>
      (\<exists>df roles.
         read_csv rt path = Inr df \<and>
         identify_columns (normalize_columns (columns df)) = Inr roles \<and>
         list_all2 (\<lambda>row t. process_row rt (normalize_columns (columns df)) roles row = Inr t)
           (rows df) ts))"
proof (intro conjI allI impI)
  fix e
  assume "read_csv rt path = Inl e"
  then show "process_csv rt path = Error (str_exn rt e)"
    by (simp add: process_csv_def process_csv_try_def)
next
  fix df
  assume a: "read_csv rt path = Inr df \<and> length (columns df) < 3"
  then have "length (normalize_columns (columns df)) < 3"
    by (simp add: normalize_columns_def)
  then have "\<exists>e. identify_columns (normalize_columns (columns df)) = Inl e"
    using identify_columns_short by blast
  with a have "\<exists>e. process_csv_try rt path = Inl e"
    unfolding process_csv_try_Inl by blast
  then show "\<exists>msg. process_csv rt path = Error msg"
    unfolding process_csv_Error .
next
  fix df roles row e
  assume "read_csv rt path = Inr df \<and>
      identify_columns (normalize_columns (columns df)) = Inr roles \<and>
      row \<in> set (rows df) \<and>
      process_row rt (normalize_columns (columns df)) roles row = Inl e"
  then have "\<exists>e. process_csv_try rt path = Inl e"
    unfolding process_csv_try_Inl by blast
  then show "\<exists>msg. process_csv rt path = Error msg"
    unfolding process_csv_Error .
next
  fix df roles row x
  assume a: "read_csv rt path = Inr df \<and>
      identify_columns (normalize_columns (columns df)) = Inr roles \<and>
      row \<in> set (rows df) \<and>
      getitem (normalize_columns (columns df)) row (amount_col roles) = Inr x \<and>
      float rt (remove_char (CHR '','') (remove_char (CHR ''$'') (str_item rt x))) = None"
  then have "\<exists>e. process_row rt (normalize_columns (columns df)) roles row = Inl e"
    using process_row_bad_amount by blast
  with a have "\<exists>e. process_csv_try rt path = Inl e"
    unfolding process_csv_try_Inl by blast
  then show "\<exists>msg. process_csv rt path = Error msg"
    unfolding process_csv_Error .
next
  fix ts
  assume "process_csv rt path = Transactions ts"
  then show "\<exists>df roles.
         read_csv rt path = Inr df \<and>
         identify_columns (normalize_columns (columns df)) = Inr roles \<and>
         list_all2 (\<lambda>row t. process_row rt (normalize_columns (columns df)) roles row = Inr t)
           (rows df) ts"
    unfolding process_csv_Transactions process_csv_try_Inr
    using iterrows_Inr_all2 by blast
qed

lemma example_bad_row:
  "rows example_bad_frame ! 1 \<in> set (rows example_bad_frame)"
  "getitem [''date'', ''description'', ''amount''] (rows example_bad_frame ! 1)
     (amount_col example_roles) = Inr (Scalar (Val ''four''))"
  "float example_runtime
     (remove_char (CHR '','') (remove_char (CHR ''$'')
        (str_item example_runtime (Scalar (Val ''four''))))) = None"
  "length (columns example_short_frame) < 3"
  by (simp_all add: getitem_def remove_char_def example_defs)

theorem all_or_nothing_witness:
  "process_csv example_runtime ''missing.csv'' = Error ''No such file'' \<and>
   (\<exists>msg. process_csv example_runtime ''short.csv'' = Error msg) \<and>
   (\<exists>msg. process_csv example_runtime ''bad.csv'' = Error msg) \<and>
   (\<exists>df roles.
      read_csv example_runtime ''bank.csv'' = Inr df \<and>
      identify_columns (normalize_columns (columns df)) = Inr roles \<and>
      list_all2
        (\<lambda>row t. process_row example_runtime (normalize_columns (columns df)) roles row = Inr t)
        (rows df) example_output)"
proof (intro conjI)
  show "process_csv example_runtime ''missing.csv'' = Error ''No such file''"
    using all_or_nothing [of example_runtime "''missing.csv''"] example_read(4)
    by (simp add: example_messages)
  show "\<exists>msg. process_csv example_runtime ''short.csv'' = Error msg"
    using all_or_nothing [of example_runtime "''short.csv''"] example_read(3) example_bad_row(4)
    by blast
  show "\<exists>msg. process_csv example_runtime ''bad.csv'' = Error msg"
    using all_or_nothing [of example_runtime "''bad.csv''"] example_read(2) example_identify(3,4)
      example_bad_row(1,2,3)
    by (metis (no_types, lifting))
  show "\<exists>df roles.
      read_csv example_runtime ''bank.csv'' = Inr df \<and>
      identify_columns (normalize_columns (columns df)) = Inr roles \<and>
      list_all2
        (\<lambda>row t. process_row example_runtime (normalize_columns (columns df)) roles row = Inr t)
        (rows df) example_output"
    using all_or_nothing [of example_runtime "''bank.csv''"] example_run by blast
qed

subsection \<open>The entry point\<close>

lemma json_string_examples:
  \<open>json_string ''error'' = ''"error"''\<close>
  \<open>json_string ''No file path provided'' = ''"No file path provided"''\<close>
  \<open>json_string ''No such file'' = ''"No such file"''\<close>
  by (simp_all add: json_string_def escape_char_def)

text \<open>
  Claim C9. Run with no argument (and also with an empty \<^verbatim>\<open>sys.argv\<close>) the script prints
  the one line \<^verbatim>\<open>{"error": "No file path provided"}\<close> and exits with status 1. Run with
  a path whose processing raises, it prints one line, the JSON object with the single
  key \<^verbatim>\<open>error\<close> and the text of the exception, and exits with status 0.
\<close>

theorem exit_status_by_error_kind:
  \<open>main rt [prog] = \<lparr>stdout = [''{"error": "No file path provided"}''], exit_status = 1\<rparr> \<and>
   main rt [] = \<lparr>stdout = [''{"error": "No file path provided"}''], exit_status = 1\<rparr> \<and>
   (\<forall>e. process_csv_try rt path = Inl e \<longrightarrow>
      main rt (prog # path # args) =
        \<lparr>stdout = [''{"error": '' @ json_string (str_exn rt e) @ ''}''], exit_status = 0\<rparr>)\<close>
proof (intro conjI allI impI)
  show \<open>main rt [prog] = \<lparr>stdout = [''{"error": "No file path provided"}''], exit_status = 1\<rparr>\<close>
    by (simp add: main_def json_string_examples)
  show \<open>main rt [] = \<lparr>stdout = [''{"error": "No file path provided"}''], exit_status = 1\<rparr>\<close>
    by (simp add: main_def json_string_examples)
next
  fix e
  assume "process_csv_try rt path = Inl e"
  then have "process_csv rt path = Error (str_exn rt e)"
    by (simp add: process_csv_def)
  then show \<open>main rt (prog # path # args) =
        \<lparr>stdout = [''{"error": '' @ json_string (str_exn rt e) @ ''}''], exit_status = 0\<rparr>\<close>
    by (simp add: main_def json_string_examples)
qed

lemma example_missing:
  "process_csv_try example_runtime ''missing.csv'' = Inl (ReadError ''No such file'')"
  by (simp add: process_csv_try_def example_read)

theorem exit_status_by_error_kind_witness:
  \<open>process_csv_try example_runtime ''missing.csv'' = Inl (ReadError ''No such file'') \<and>
   main example_runtime [''process_csv.py'', ''missing.csv''] =
     \<lparr>stdout = [''{"error": "No such file"}''], exit_status = 0\<rparr>\<close>
  using exit_status_by_error_kind [of example_runtime "''process_csv.py''" "''missing.csv''" "[]"]
    example_missing
  by (simp add: example_messages json_string_examples)

subsection \<open>The categoriser\<close>

lemma str_in_iff: "str_in k s \<longleftrightarrow> (\<exists>p q. s = p @ k @ q)"
proof (induction s)
  case Nil
  then show ?case by auto
next
  case (Cons c s)
  show ?case
  proof
    assume "str_in k (c # s)"
    then consider "prefix k (c # s)" | "str_in k s" by auto
    then show "\<exists>p q. c # s = p @ k @ q"
    proof cases
      case 1
      then obtain q where "c # s = k @ q" by (auto simp: prefix_def)
      then have "c # s = [] @ k @ q" by simp
      then show ?thesis by blast
    next
      case 2
      then obtain p q where "s = p @ k @ q" using Cons.IH by blast
      then have "c # s = (c # p) @ k @ q" by simp
      then show ?thesis by blast
    qed
  next
    assume "\<exists>p q. c # s = p @ k @ q"
    then obtain p q where pq: "c # s = p @ k @ q" by blast
    show "str_in k (c # s)"
    proof (cases p)
      case Nil
      with pq have "prefix k (c # s)" by (simp add: prefix_def)
      then show ?thesis by simp
    next
      case (Cons a p')
      with pq have "s = p' @ k @ q" by simp
      then have "str_in k s" using Cons.IH by blast
      then show ?thesis by simp
    qed
  qed
qed

lemma str_in_lower:
  assumes "lower k = k"
  shows "str_in k (lower d) \<longleftrightarrow> occurs_ignoring_case k d"
proof
  assume "str_in k (lower d)"
  then obtain p q where "map lower_char d = p @ k @ q"
    unfolding str_in_iff lower_def by blast
  then obtain d1 d2 where d: "d = d1 @ d2" "map lower_char d1 = p" "map lower_char d2 = k @ q"
    by (metis map_eq_append_conv)
  then obtain u d3 where "d2 = u @ d3" "map lower_char u = k"
    by (metis map_eq_append_conv)
  with d assms show "occurs_ignoring_case k d"
    unfolding occurs_ignoring_case_def lower_def by auto
next
  assume "occurs_ignoring_case k d"
  then obtain p u q where "d = p @ u @ q" "lower u = k"
    unfolding occurs_ignoring_case_def using assms by auto
  then have "lower d = lower p @ k @ lower q"
    by (auto simp: lower_def)
  then show "str_in k (lower d)"
    unfolding str_in_iff by blast
qed

lemma keyword_loop_iff: "keyword_loop ks s \<longleftrightarrow> (\<exists>k\<in>set ks. str_in k s)"
  by (induction ks) auto

lemma category_loop_find:
  "category_loop tbl s =
     (case find (\<lambda>(c, ks). \<exists>k\<in>set ks. str_in k s) tbl of
        Some (c, ks) \<Rightarrow> c | None \<Rightarrow> ''uncategorized'')"
  by (induction tbl) (auto simp: keyword_loop_iff)

lemma keywords_lower: "\<forall>(c, ks)\<in>set categories. \<forall>k\<in>set ks. lower k = k"
  by code_simp

lemma find_table:
  assumes "distinct (map fst tbl)"
  shows "map_option fst (find (\<lambda>(c, ks). Q ks) tbl) =
         find (\<lambda>c. Q (case map_of tbl c of Some ks \<Rightarrow> ks | None \<Rightarrow> [])) (map fst tbl)"
  using assms
proof (induction tbl)
  case Nil
  then show ?case by simp
next
  case (Cons entry tbl)
  obtain c0 ks0 where entry: "entry = (c0, ks0)" by (cases entry)
  have "find (\<lambda>c. Q (case map_of (entry # tbl) c of Some ks \<Rightarrow> ks | None \<Rightarrow> [])) (map fst tbl) =
        find (\<lambda>c. Q (case map_of tbl c of Some ks \<Rightarrow> ks | None \<Rightarrow> [])) (map fst tbl)"
    using Cons.prems by (intro find_cong) (auto simp: entry)
  with Cons show ?case by (simp add: entry)
qed

lemma find_snoc: "\<not> P y \<Longrightarrow> find P (xs @ [y]) = find P xs"
  by (induction xs) auto

lemma categories_names: "map fst categories = category_order @ [''income'']"
  by (simp add: categories_def category_order_def)

lemma category_loop_spec:
  "category_loop categories (lower d) =
     (case first_matching_category d of Some c \<Rightarrow> c | None \<Rightarrow> ''uncategorized'')"
proof -
  let ?P = "\<lambda>ks. \<exists>k\<in>set ks. occurs_ignoring_case k d"
  have low: "str_in k (lower d) = occurs_ignoring_case k d"
    if "(c, ks) \<in> set categories" "k \<in> set ks" for c ks k
    using keywords_lower that str_in_lower by blast
  have "find (\<lambda>(c, ks). \<exists>k\<in>set ks. str_in k (lower d)) categories =
        find (\<lambda>(c, ks). ?P ks) categories"
    by (rule find_cong) (auto simp: low)
  then have loop: "category_loop categories (lower d) =
      (case map_option fst (find (\<lambda>(c, ks). ?P ks) categories) of
         Some c \<Rightarrow> c | None \<Rightarrow> ''uncategorized'')"
    unfolding category_loop_find by (simp split: option.splits)
  have "distinct (map fst categories)"
    by (simp add: categories_def)
  then have "map_option fst (find (\<lambda>(c, ks). ?P ks) categories) =
             find (\<lambda>c. ?P (keywords_of c)) (map fst categories)"
    unfolding keywords_of_def by (rule find_table)
  also have "\<dots> = find (\<lambda>c. ?P (keywords_of c)) category_order"
    unfolding categories_names by (rule find_snoc) (simp add: keywords_of_def categories_def)
  finally show ?thesis
    using loop by (simp add: first_matching_category_def)
qed

lemma lower_char_idem: "lower_char (lower_char c) = lower_char c"
  by (simp add: string_defs)

lemma lower_idem: "lower (lower s) = lower s"
  by (simp add: lower_def lower_char_idem)

lemma occurs_ignoring_case_iff: "occurs_ignoring_case k d \<longleftrightarrow> str_in (lower k) (lower d)"
proof -
  have "occurs_ignoring_case k d = occurs_ignoring_case (lower k) d"
    by (simp add: occurs_ignoring_case_def lower_idem)
  then show ?thesis
    using str_in_lower [of "lower k" d] by (simp add: lower_idem)
qed

text \<open>
  Claim C5. For a signed amount that is not above zero, the categoriser returns the
  first category, in the order groceries, dining, transportation, utilities,
  entertainment, shopping, housing, one of whose keywords occurs in the description as
  a substring, ignoring case, and \<open>uncategorized\<close> when there is none. So a description
  in which \<open>coffee\<close> and \<open>uber\<close> occur and no keyword of groceries does is \<open>dining\<close>.
\<close>

theorem expense_category_is_first_match:
  assumes "\<not> fgt0 signed"
  shows "categorize_transaction d signed =
           (case first_matching_category d of Some c \<Rightarrow> c | None \<Rightarrow> ''uncategorized'') \<and>
         (occurs_ignoring_case ''coffee'' d \<and> occurs_ignoring_case ''uber'' d \<and>
          (\<forall>k\<in>set (keywords_of ''groceries''). \<not> occurs_ignoring_case k d) \<longrightarrow>
            categorize_transaction d signed = ''dining'')"
proof -
  have eq: "categorize_transaction d signed =
           (case first_matching_category d of Some c \<Rightarrow> c | None \<Rightarrow> ''uncategorized'')"
    using assms by (simp add: categorize_transaction_def category_loop_spec)
  have "first_matching_category d = Some ''dining''"
    if "occurs_ignoring_case ''coffee'' d"
      and "\<forall>k\<in>set (keywords_of ''groceries''). \<not> occurs_ignoring_case k d"
  proof -
    have "''coffee'' \<in> set (keywords_of ''dining'')"
      by (simp add: keywords_of_def categories_def)
    then have "\<exists>k\<in>set (keywords_of ''dining''). occurs_ignoring_case k d"
      using that(1) by blast
    then show ?thesis
      using that(2) by (simp add: first_matching_category_def category_order_def)
  qed
  with eq show ?thesis by simp
qed

lemma coffee_and_uber: "occurs_ignoring_case ''coffee'' ''Coffee and Uber'' \<and>
     occurs_ignoring_case ''uber'' ''Coffee and Uber'' \<and>
     (\<forall>k\<in>set (keywords_of ''groceries''). \<not> occurs_ignoring_case k ''Coffee and Uber'')"
  unfolding occurs_ignoring_case_iff by code_simp

theorem expense_category_is_first_match_witness:
  "\<not> fgt0 (Fin (- (9 / 2))) \<and> occurs_ignoring_case ''coffee'' ''Coffee and Uber'' \<and>
   occurs_ignoring_case ''uber'' ''Coffee and Uber'' \<and>
   \<not> (\<exists>k\<in>set (keywords_of ''groceries''). occurs_ignoring_case k ''Coffee and Uber'') \<and>
   categorize_transaction ''Coffee and Uber'' (Fin (- (9 / 2))) = ''dining''"
proof -
  have neg: "\<not> fgt0 (Fin (- (9 / 2)))" by simp
  have "categorize_transaction ''Coffee and Uber'' (Fin (- (9 / 2))) = ''dining''"
    using expense_category_is_first_match [OF neg, of "''Coffee and Uber''"] coffee_and_uber by blast
  then show ?thesis using neg coffee_and_uber by blast
qed

subsection \<open>The merchant extractor\<close>

lemma split_loop_Nil: "split_loop w s = [] \<longleftrightarrow> w = [] \<and> list_all is_space s"
  by (induction s arbitrary: w) auto

lemma split_Nil: "split s = [] \<longleftrightarrow> list_all is_space s"
  by (simp add: split_def split_loop_Nil)

lemma split_loop_words: "u \<in> set (split_loop w s) \<Longrightarrow> u \<noteq> []"
  by (induction s arbitrary: w) (auto split: if_splits)

lemma split_words: "u \<in> set (split s) \<Longrightarrow> u \<noteq> []"
  unfolding split_def by (rule split_loop_words)

lemma join_Nil: "join sep ws = [] \<Longrightarrow> (\<forall>w\<in>set ws. w = [])"
  by (induction sep ws rule: join.induct) auto

lemma capitalize_Nil: "capitalize w = [] \<longleftrightarrow> w = []"
  by (cases w) auto

lemma strip_spaces: "list_all is_space (strip s) \<longleftrightarrow> strip s = []"
proof
  assume all: "list_all is_space (strip s)"
  show "strip s = []"
  proof (rule ccontr)
    assume "strip s \<noteq> []"
    then have ne: "dropWhile is_space (rev (dropWhile is_space s)) \<noteq> []"
      by (simp add: strip_def)
    then have "\<not> is_space (hd (dropWhile is_space (rev (dropWhile is_space s))))"
      by (rule hd_dropWhile)
    moreover have "hd (dropWhile is_space (rev (dropWhile is_space s))) \<in> set (strip s)"
      using ne by (simp add: strip_def)
    ultimately show False
      using all by (auto simp: list_all_iff)
  qed
qed simp

lemma no_words: "split (cleaned d) = [] \<longleftrightarrow> cleaned d = []"
proof -
  have "cleaned d = strip (re_sub spaces_pattern '' ''
          (re_sub short_date_pattern [] (re_sub long_number_pattern []
             (re_sub boilerplate_pattern [] (lower d)))))"
    by (simp add: cleaned_def)
  then show ?thesis
    by (simp add: split_Nil strip_spaces)
qed

text \<open>
  Claim C8, amended. The cleaning leaves no word exactly when it leaves the empty text,
  and then \<^verbatim>\<open>extract_merchant\<close> returns the description as it came, casing and all. The
  result is empty only for the empty description: a description that is not empty never
  gives an empty merchant.
\<close>

theorem empty_cleaning_returns_description:
  "(split (cleaned d) = [] \<longleftrightarrow> cleaned d = []) \<and>
   (cleaned d = [] \<longrightarrow> extract_merchant d = d) \<and>
   (d \<noteq> [] \<longrightarrow> extract_merchant d \<noteq> [])"
proof (intro conjI impI)
  show "split (cleaned d) = [] \<longleftrightarrow> cleaned d = []"
    by (rule no_words)
  show "extract_merchant d = d" if "cleaned d = []"
    using that by (simp add: extract_merchant_def split_def)
  show "extract_merchant d \<noteq> []" if "d \<noteq> []"
  proof (cases "split (cleaned d) = []")
    case True
    with that show ?thesis by (simp add: extract_merchant_def)
  next
    case False
    then obtain w where w: "w \<in> set (split (cleaned d))"
      by (cases "split (cleaned d)") auto
    then have "w \<noteq> []" by (rule split_words)
    then have "capitalize w \<noteq> []" by (simp add: capitalize_Nil)
    moreover have "capitalize w \<in> set (map capitalize (split (cleaned d)))"
      using w by simp
    ultimately have "join '' '' (map capitalize (split (cleaned d))) \<noteq> []"
      using join_Nil by blast
    with False show ?thesis by (simp add: extract_merchant_def)
  qed
qed

lemma payment_example:
  "cleaned ''payment to 123456'' = []"
  by (simp add: merchant_defs string_defs)

theorem empty_cleaning_returns_description_witness:
  "cleaned ''payment to 123456'' = [] \<and> split (cleaned ''payment to 123456'') = [] \<and>
   extract_merchant ''payment to 123456'' = ''payment to 123456'' \<and>
   extract_merchant ''payment to 123456'' \<noteq> []"
  using empty_cleaning_returns_description [of "''payment to 123456''"] payment_example
  by simp

text \<open>
  The claim as it was stated adds that the result is never the empty text. It is for
  the empty description: nothing is left to clean, and the description is returned.
\<close>

theorem empty_description_stays_empty:
  "split (cleaned []) = [] \<and> extract_merchant [] = []"
  by (simp add: merchant_defs string_defs)

lemma has_long_number_digit: "has_long_number s \<Longrightarrow> \<exists>c\<in>set s. is_digit c"
proof -
  assume "has_long_number s"
  then obtain p r q where s: "s = p @ r @ q" and r: "6 \<le> length r" "list_all is_digit r"
    unfolding has_long_number_def by blast
  from r(1) obtain c r' where "r = c # r'" by (cases r) auto
  with r(2) s show ?thesis by auto
qed

lemma has_short_date_slash: "has_short_date s \<Longrightarrow> CHR ''/'' \<in> set s"
  unfolding has_short_date_def by auto

lemma starbucks_steps:
  "re_sub boilerplate_pattern [] (lower ''POS Purchase At Starbucks 123456789 04/12'')
     = '' starbucks 123456789 04/12''"
  "re_sub long_number_pattern [] '' starbucks 123456789 04/12'' = '' starbucks  04/12''"
  "re_sub short_date_pattern [] '' starbucks  04/12'' = '' starbucks  ''"
  "strip (re_sub spaces_pattern '' '' '' starbucks  '') = ''starbucks''"
  "split ''starbucks'' = [''starbucks'']"
  "capitalize ''starbucks'' = ''Starbucks''"
  by (simp_all add: merchant_defs string_defs)


lemma starbucks_clean:
  "\<not> has_long_number ''Starbucks''" "\<not> has_short_date ''Starbucks''"
  "\<not> has_boilerplate ''Starbucks''"
proof -
  have "\<not> (\<exists>c\<in>set ''Starbucks''. is_digit c)"
    by (simp add: string_defs)
  then show "\<not> has_long_number ''Starbucks''"
    using has_long_number_digit by blast
  have "CHR ''/'' \<notin> set ''Starbucks''"
    by simp
  then show "\<not> has_short_date ''Starbucks''"
    using has_short_date_slash by blast
  show "\<not> has_boilerplate ''Starbucks''"
    unfolding has_boilerplate_def occurs_ignoring_case_iff
    by code_simp
qed

text \<open>
  Claim C7. For \<^verbatim>\<open>POS Purchase At Starbucks 123456789 04/12\<close> the first substitution
  removes \<^verbatim>\<open>pos\<close> with its space and \<^verbatim>\<open>purchase at\<close>, the second the nine digits, the
  third \<^verbatim>\<open>04/12\<close>; the result is \<^verbatim>\<open>Starbucks\<close>, which has no run of six digits, no
  fragment of two digits, a slash and two digits, and no boilerplate phrase.
\<close>

theorem starbucks_merchant:
  "extract_merchant ''POS Purchase At Starbucks 123456789 04/12'' = ''Starbucks'' \<and>
   re_sub boilerplate_pattern [] (lower ''POS Purchase At Starbucks 123456789 04/12'')
     = '' starbucks 123456789 04/12'' \<and>
   re_sub long_number_pattern [] '' starbucks 123456789 04/12'' = '' starbucks  04/12'' \<and>
   re_sub short_date_pattern [] '' starbucks  04/12'' = '' starbucks  '' \<and>
   \<not> has_long_number (extract_merchant ''POS Purchase At Starbucks 123456789 04/12'') \<and>
   \<not> has_short_date (extract_merchant ''POS Purchase At Starbucks 123456789 04/12'') \<and>
   \<not> has_boilerplate (extract_merchant ''POS Purchase At Starbucks 123456789 04/12'')"
proof -
  have "cleaned ''POS Purchase At Starbucks 123456789 04/12'' = ''starbucks''"
    by (simp only: cleaned_def Let_def starbucks_steps)
  then have "extract_merchant ''POS Purchase At Starbucks 123456789 04/12'' = ''Starbucks''"
    by (simp add: extract_merchant_def starbucks_steps(5) string_defs)
  then show ?thesis
    by (simp only: starbucks_steps starbucks_clean simp_thms)
qed


end
